theory Spec2Isabelle
  imports Main
begin

section \<open>chromalog: colorizing functions and structures\<close>

text \<open>
  A shallow embedding of \<^verbatim>\<open>chromalog/colorizer.py\<close>. Python strings are
  \<^typ>\<open>string\<close>, a color pair is a 2-tuple of strings, and a color map (a dict from
  tag names to color pairs) is an association list read with \<^const>\<open>map_of\<close>: the
  list is empty exactly when the dict is falsy, which the constructor tests.
\<close>

subsection \<open>Data model\<close>

type_synonym color_pair_t = "string \<times> string"

type_synonym color_map_t = "(string \<times> color_pair_t) list"

text \<open>
  A truthy \<^verbatim>\<open>color_tag\<close> is either a string or a list of strings
  (\<^verbatim>\<open>ColorizableMixin.__init__\<close>). Iterating a Python string yields its
  characters as one-character strings; iterating a list yields its members.
\<close>

datatype color_tags = TagStr string | TagList "string list"

fun iter_tags :: "color_tags \<Rightarrow> string list" where
  "iter_tags (TagStr s) = map (\<lambda>c. [c]) s"
| "iter_tags (TagList ts) = ts"

text \<open>
  A Python value as the colorizer sees it: its \<^verbatim>\<open>str()\<close> rendering and
  the result of \<^verbatim>\<open>getattr(obj, 'color_tag', None)\<close>, where \<open>None\<close>
  stands for a missing attribute as well as for the value \<^verbatim>\<open>None\<close>.
\<close>

record pyobj =
  str_of :: string
  color_tag :: "color_tags option"

definition plain :: "string \<Rightarrow> pyobj" where
  "plain s = \<lparr>str_of = s, color_tag = None\<rparr>"

definition ColorizableMixin :: "string \<Rightarrow> color_tags option \<Rightarrow> pyobj" where
  "ColorizableMixin s tag = \<lparr>str_of = s, color_tag = tag\<rparr>"

text \<open>Python truthiness of the values the module tests with \<^verbatim>\<open>if\<close>.\<close>

fun truthy_tags :: "color_tags option \<Rightarrow> bool" where
  "truthy_tags None = False"
| "truthy_tags (Some (TagStr s)) = (s \<noteq> [])"
| "truthy_tags (Some (TagList ts)) = (ts \<noteq> [])"

fun truthy_str :: "string option \<Rightarrow> bool" where
  "truthy_str None = False"
| "truthy_str (Some s) = (s \<noteq> [])"

record 'a ColorizedObject =
  obj :: 'a
  color_pair :: "color_pair_t option"

record GenericColorizer =
  color_map :: color_map_t
  default_color_tag :: "string option"

subsection \<open>GenericColorizer.get_color_pair\<close>

text \<open>
  \<^verbatim>\<open>dict.get\<close> with a key that may be \<^verbatim>\<open>None\<close>: the keys of a color
  map are strings, so \<^verbatim>\<open>None\<close> is never found.
\<close>

fun dict_get :: "color_map_t \<Rightarrow> string option \<Rightarrow> color_pair_t option" where
  "dict_get m None = None"
| "dict_get m (Some k) = map_of m k"

text \<open>
  The local variable \<^verbatim>\<open>pairs\<close> as it stands before the final
  \<^verbatim>\<open>return\<close>. A color pair is a 2-tuple and therefore truthy, so
  \<^verbatim>\<open>filter(None, ...)\<close> drops exactly the failed lookups.
\<close>

definition found_pairs :: "GenericColorizer \<Rightarrow> color_tags \<Rightarrow> color_pair_t list" where
  "found_pairs self tags = List.map_filter (map_of (color_map self)) (iter_tags tags)"

definition with_default :: "GenericColorizer \<Rightarrow> color_pair_t list \<Rightarrow> color_pair_t list" where
  "with_default self pairs =
     (if pairs = [] then
        (case dict_get (color_map self) (default_color_tag self) of
           Some pair \<Rightarrow> [pair]
         | None \<Rightarrow> pairs)
      else pairs)"

definition with_context_pair ::
  "GenericColorizer \<Rightarrow> string option \<Rightarrow> color_pair_t list \<Rightarrow> color_pair_t list" where
  "with_context_pair self context_tag pairs =
     (if truthy_str context_tag then
        (case dict_get (color_map self) context_tag of
           Some ctx_pair \<Rightarrow> [prod.swap ctx_pair, ctx_pair] @ pairs
         | None \<Rightarrow> pairs)
      else pairs)"

definition pairs_of ::
  "GenericColorizer \<Rightarrow> color_tags \<Rightarrow> string option \<Rightarrow> color_pair_t list" where
  "pairs_of self tags context_tag =
     with_context_pair self context_tag (with_default self (found_pairs self tags))"

definition get_color_pair ::
  "GenericColorizer \<Rightarrow> color_tags \<Rightarrow> string option \<Rightarrow> color_pair_t" where
  "get_color_pair self tags context_tag =
     (let pairs = pairs_of self tags context_tag
      in (concat (map fst pairs), concat (map snd (rev pairs))))"

subsection \<open>GenericColorizer.colorize\<close>

definition colorize ::
  "GenericColorizer \<Rightarrow> pyobj \<Rightarrow> string option \<Rightarrow> pyobj ColorizedObject" where
  "colorize self ob context_tag =
     (let tag = color_tag ob;
          pair = (if truthy_tags tag then Some (get_color_pair self (the tag) context_tag)
                  else None)
      in \<lparr>obj = ob, color_pair = pair\<rparr>)"

subsection \<open>ColorizedObject\<close>

text \<open>
  \<^verbatim>\<open>__str__\<close>: a stored color pair is a 2-tuple, hence truthy, so only
  \<^verbatim>\<open>None\<close> takes the first branch.
\<close>

definition ColorizedObject_str :: "pyobj ColorizedObject \<Rightarrow> string" where
  "ColorizedObject_str self =
     (case color_pair self of
        None \<Rightarrow> str_of (obj self)
      | Some pair \<Rightarrow> fst pair @ str_of (obj self) @ snd pair)"



subsection \<open>Construction and the built-in color maps\<close>

datatype error = ValueError | IndexError | KeyError string | AttributeError | NotModelled

text \<open>
  The escape sequences come from the \<^verbatim>\<open>colorama\<close> package, which is not part
  of the repository; the constants used are taken as a parameter.
\<close>

record colorama =
  Style_DIM :: string
  Style_BRIGHT :: string
  Style_RESET_ALL :: string
  Fore_CYAN :: string
  Fore_GREEN :: string
  Fore_YELLOW :: string
  Fore_RED :: string
  Back_RED :: string

text \<open>The values these constants have in \<^verbatim>\<open>colorama\<close> (ANSI escape sequences).\<close>

definition colorama_ansi :: colorama where
  "colorama_ansi =
     \<lparr>Style_DIM = CHR 0x1B # ''[2m'',
      Style_BRIGHT = CHR 0x1B # ''[1m'',
      Style_RESET_ALL = CHR 0x1B # ''[0m'',
      Fore_CYAN = CHR 0x1B # ''[36m'',
      Fore_GREEN = CHR 0x1B # ''[32m'',
      Fore_YELLOW = CHR 0x1B # ''[33m'',
      Fore_RED = CHR 0x1B # ''[31m'',
      Back_RED = CHR 0x1B # ''[41m''\<rparr>"

datatype klass = GenericColorizer_class | Colorizer_class | MonochromaticColorizer_class

text \<open>
  The class attribute \<^verbatim>\<open>default_color_map\<close>. \<^verbatim>\<open>GenericColorizer\<close> itself
  does not define it.
\<close>

fun default_color_map :: "colorama \<Rightarrow> klass \<Rightarrow> color_map_t option" where
  "default_color_map K GenericColorizer_class = None"
| "default_color_map K Colorizer_class = Some
     [(''debug'', (Style_DIM K @ Fore_CYAN K, Style_RESET_ALL K)),
      (''info'', (Style_RESET_ALL K, Style_RESET_ALL K)),
      (''important'', (Style_BRIGHT K, Style_RESET_ALL K)),
      (''success'', (Fore_GREEN K, Style_RESET_ALL K)),
      (''warning'', (Fore_YELLOW K, Style_RESET_ALL K)),
      (''error'', (Fore_RED K, Style_RESET_ALL K)),
      (''critical'', (Back_RED K, Style_RESET_ALL K))]"
| "default_color_map K MonochromaticColorizer_class = Some
     [(''important'', (''**'', ''**''))]"

fun truthy_map :: "color_map_t option \<Rightarrow> bool" where
  "truthy_map None = False"
| "truthy_map (Some m) = (m \<noteq> [])"

text \<open>
  \<^verbatim>\<open>__init__\<close>: \<^verbatim>\<open>color_map or self.default_color_map\<close>. Reading the
  missing attribute of the base class raises \<^verbatim>\<open>AttributeError\<close>.
\<close>

definition GenericColorizer_init ::
  "colorama \<Rightarrow> klass \<Rightarrow> color_map_t option \<Rightarrow> string option \<Rightarrow> error + GenericColorizer" where
  "GenericColorizer_init K cls cmap default_tag =
     (if truthy_map cmap then Inr \<lparr>color_map = the cmap, default_color_tag = default_tag\<rparr>
      else
        (case default_color_map K cls of
           None \<Rightarrow> Inl AttributeError
         | Some m \<Rightarrow> Inr \<lparr>color_map = m, default_color_tag = default_tag\<rparr>))"

subsection \<open>Template substitution\<close>

text \<open>
  \<^verbatim>\<open>str.format\<close> is a Python builtin. \<^verbatim>\<open>Printer.__call__\<close> takes it
  as a parameter of type \<open>formatter\<close>; a reference model follows for the placeholders
  \<^verbatim>\<open>{}\<close>, \<^verbatim>\<open>{0}\<close> and \<^verbatim>\<open>{name}\<close> and the escapes
  \<^verbatim>\<open>{{\<close> and \<^verbatim>\<open>}}\<close>. A replacement field with a conversion, a
  format specification, an attribute or an index is outside it and yields
  \<^const>\<open>NotModelled\<close>. A substituted value is rendered by its \<^verbatim>\<open>str()\<close>,
  which is what \<^verbatim>\<open>object.__format__\<close> does for an empty specification.
\<close>

type_synonym 'a formatter = "string \<Rightarrow> 'a list \<Rightarrow> (string \<times> 'a) list \<Rightarrow> error + string"

datatype numbering = Unknown | Automatic nat | Manual

definition is_digit :: "char \<Rightarrow> bool" where
  "is_digit c = List.member ''0123456789'' c"

definition nat_of_digits :: "string \<Rightarrow> nat" where
  "nat_of_digits s = foldl (\<lambda>n c. 10 * n + (of_char c - 48)) 0 s"

definition list_get :: "'a list \<Rightarrow> nat \<Rightarrow> error + 'a" where
  "list_get xs i = (if i < length xs then Inr (xs ! i) else Inl IndexError)"

definition with_numbering :: "numbering \<Rightarrow> error + 'a \<Rightarrow> error + ('a \<times> numbering)" where
  "with_numbering nb r = (case r of Inl e \<Rightarrow> Inl e | Inr v \<Rightarrow> Inr (v, nb))"

definition get_value ::
  "string \<Rightarrow> numbering \<Rightarrow> 'a list \<Rightarrow> (string \<times> 'a) list \<Rightarrow> error + ('a \<times> numbering)" where
  "get_value field nb args kwargs =
     (if list_ex (List.member ''!:.[{'') field then Inl NotModelled
      else if field = [] then
        (case nb of
           Manual \<Rightarrow> Inl ValueError
         | Unknown \<Rightarrow> with_numbering (Automatic 1) (list_get args 0)
         | Automatic n \<Rightarrow> with_numbering (Automatic (Suc n)) (list_get args n))
      else if list_all is_digit field then
        (case nb of
           Automatic n \<Rightarrow> Inl ValueError
         | _ \<Rightarrow> with_numbering Manual (list_get args (nat_of_digits field)))
      else
        (case map_of kwargs field of
           None \<Rightarrow> Inl (KeyError field)
         | Some v \<Rightarrow> Inr (v, nb)))"

definition prepend :: "string \<Rightarrow> error + string \<Rightarrow> error + string" where
  "prepend s r = (case r of Inl e \<Rightarrow> Inl e | Inr t \<Rightarrow> Inr (s @ t))"

text \<open>
  One pass over the template. The fifth argument is \<open>None\<close> outside a replacement
  field and holds the field read so far inside one.
\<close>

fun format_go ::
  "('a \<Rightarrow> string) \<Rightarrow> 'a list \<Rightarrow> (string \<times> 'a) list \<Rightarrow> numbering \<Rightarrow> string option \<Rightarrow> string
     \<Rightarrow> error + string" where
  "format_go str args kwargs nb None [] = Inr []"
| "format_go str args kwargs nb (Some field) [] = Inl ValueError"
| "format_go str args kwargs nb (Some field) (c # cs) =
     (if c = CHR ''}'' then
        (case get_value field nb args kwargs of
           Inl e \<Rightarrow> Inl e
         | Inr (v, nb') \<Rightarrow> prepend (str v) (format_go str args kwargs nb' None cs))
      else format_go str args kwargs nb (Some (field @ [c])) cs)"
| "format_go str args kwargs nb None (c # cs) =
     (if c = CHR ''{'' then
        (case cs of
           [] \<Rightarrow> Inl ValueError
         | d # ds \<Rightarrow>
             if d = CHR ''{'' then prepend [c] (format_go str args kwargs nb None ds)
             else format_go str args kwargs nb (Some []) cs)
      else if c = CHR ''}'' then
        (case cs of
           [] \<Rightarrow> Inl ValueError
         | d # ds \<Rightarrow>
             if d = CHR ''}'' then prepend [c] (format_go str args kwargs nb None ds)
             else Inl ValueError)
      else prepend [c] (format_go str args kwargs nb None cs))"

definition str_format :: "('a \<Rightarrow> string) \<Rightarrow> 'a formatter" where
  "str_format str template args kwargs = format_go str args kwargs Unknown None template"

subsection \<open>Printer\<close>

text \<open>
  Modelled from the spec: the marking wrapper \<^verbatim>\<open>Mark\<close> of
  \<^verbatim>\<open>chromalog/mark.py\<close>, which the printer imports and whose source is not
  available. The spec describes it as the wrapper "that merely tags a value with a
  color tag (consumed as a value exposing \<^verbatim>\<open>value\<close> and
  \<^verbatim>\<open>color_tag\<close>)"; it renders as the value it wraps, and the repository's
  tests expect a tag given as one string to resolve as the one-element list.
\<close>

definition Mark :: "pyobj \<Rightarrow> color_tags \<Rightarrow> pyobj" where
  "Mark v tag =
     \<lparr>str_of = str_of v,
      color_tag = Some (TagList (case tag of TagStr s \<Rightarrow> [s] | TagList ts \<Rightarrow> ts))\<rparr>"

record Printer =
  colorizer :: GenericColorizer
  context_color_tag :: "string option"

text \<open>
  The stream is the sequence of strings passed to its \<^verbatim>\<open>write\<close> method, oldest
  first; \<^verbatim>\<open>StringIO.getvalue\<close> is their concatenation. A printer refers to a
  stream that other printers may share, so the stream is threaded through the call
  rather than stored in the record.
\<close>

type_synonym stream = "string list"

definition getvalue :: "stream \<Rightarrow> string" where
  "getvalue st = concat st"

definition stream_write :: "stream \<Rightarrow> string \<Rightarrow> stream" where
  "stream_write st s = st @ [s]"

definition printer :: "GenericColorizer \<Rightarrow> string option \<Rightarrow> Printer" where
  "printer self context_tag = \<lparr>colorizer = self, context_color_tag = context_tag\<rparr>"

definition with_context :: "Printer \<Rightarrow> string option \<Rightarrow> Printer" where
  "with_context self context_tag =
     \<lparr>colorizer = colorizer self, context_color_tag = context_tag\<rparr>"

text \<open>
  \<^verbatim>\<open>Printer.__call__\<close>. The first two definitions are the values of the
  variables \<^verbatim>\<open>msg\<close> and \<^verbatim>\<open>cfunc\<close> after the
  \<^verbatim>\<open>if\<close>. An exception raised by the substitution leaves the method before
  either \<^verbatim>\<open>write\<close>.
\<close>

definition Printer_msg :: "Printer \<Rightarrow> string \<Rightarrow> string" where
  "Printer_msg self msg =
     (if truthy_str (context_color_tag self) then
        ColorizedObject_str
          (colorize (colorizer self)
             (Mark (plain msg) (TagStr (the (context_color_tag self)))) None)
      else msg)"

definition Printer_cfunc :: "Printer \<Rightarrow> pyobj \<Rightarrow> pyobj ColorizedObject" where
  "Printer_cfunc self =
     (if truthy_str (context_color_tag self) then
        (\<lambda>v. colorize (colorizer self) v (context_color_tag self))
      else (\<lambda>v. colorize (colorizer self) v None))"

definition Printer_call ::
  "pyobj ColorizedObject formatter \<Rightarrow> Printer \<Rightarrow> string \<Rightarrow> pyobj list \<Rightarrow> (string \<times> pyobj) list
     \<Rightarrow> stream \<Rightarrow> (error + unit) \<times> stream" where
  "Printer_call fmt self msg args kwargs st =
     (let args' = map (Printer_cfunc self) args;
          kwargs' = map (\<lambda>(key, v). (key, Printer_cfunc self v)) kwargs
      in case fmt (Printer_msg self msg) args' kwargs' of
           Inl e \<Rightarrow> (Inl e, st)
         | Inr text \<Rightarrow> (Inr (), stream_write (stream_write st text) ''\<newline>''))"

section \<open>Properties\<close>

lemmas resolve_defs =
  get_color_pair_def pairs_of_def with_context_pair_def with_default_def found_pairs_def

subsection \<open>Auxiliary facts about the pair list\<close>

lemma map_filter_empty_iff:
  "List.map_filter f xs = [] \<longleftrightarrow> (\<forall>x \<in> set xs. f x = None)"
  by (induction xs) (auto simp: List.map_filter_simps split: option.splits)

lemma map_filter_found_only:
  "List.map_filter f (filter (\<lambda>x. f x \<noteq> None) xs) = List.map_filter f xs"
  by (induction xs) (auto simp: List.map_filter_simps split: option.splits)

lemma found_pairs_all_missing:
  "(\<forall>t \<in> set ts. map_of (color_map self) t = None) \<Longrightarrow> found_pairs self (TagList ts) = []"
  by (simp add: found_pairs_def map_filter_empty_iff)

lemma found_pairs_some_found:
  "(\<exists>t \<in> set ts. map_of (color_map self) t \<noteq> None) \<Longrightarrow> found_pairs self (TagList ts) \<noteq> []"
  by (simp add: found_pairs_def map_filter_empty_iff)

lemma found_pairs_default_irrelevant:
  "found_pairs (self\<lparr>default_color_tag := d\<rparr>) tags = found_pairs self tags"
  by (simp add: found_pairs_def)

lemma found_pairs_drop_missing:
  "found_pairs self (TagList (filter (\<lambda>t. map_of (color_map self) t \<noteq> None) ts)) =
   found_pairs self (TagList ts)"
  unfolding found_pairs_def iter_tags.simps by (rule map_filter_found_only)

lemma with_default_missing:
  "dict_get (color_map self) (default_color_tag self) = None \<Longrightarrow> with_default self ps = ps"
  by (simp add: with_default_def)

lemma with_default_none:
  "with_default (self\<lparr>default_color_tag := None\<rparr>) ps = ps"
  by (simp add: with_default_def)

lemma with_context_pair_missing:
  "dict_get (color_map self) ctx = None \<Longrightarrow> with_context_pair self ctx ps = ps"
  by (simp add: with_context_pair_def)

lemma with_context_pair_default_irrelevant:
  "with_context_pair (self\<lparr>default_color_tag := d\<rparr>) ctx ps = with_context_pair self ctx ps"
  by (simp add: with_context_pair_def)

lemma get_color_pair_join:
  "get_color_pair self tags ctx =
     (concat (map fst (pairs_of self tags ctx)), concat (rev (map snd (pairs_of self tags ctx))))"
  by (simp add: get_color_pair_def Let_def rev_map)

lemma pairs_of_two_found:
  "map_of (color_map self) t1 = Some p1 \<Longrightarrow> map_of (color_map self) t2 = Some p2 \<Longrightarrow>
   pairs_of self (TagList [t1, t2]) None = [p1, p2]"
  by (simp add: pairs_of_def with_context_pair_def with_default_def found_pairs_def)

lemma pairs_of_some_found:
  "filter (\<lambda>t. map_of (color_map self) t \<noteq> None) ts \<noteq> [] \<Longrightarrow>
   pairs_of self (TagList ts) None =
     map (\<lambda>t. the (map_of (color_map self) t)) (filter (\<lambda>t. map_of (color_map self) t \<noteq> None) ts)"
  by (simp add: pairs_of_def with_context_pair_def with_default_def found_pairs_def
      List.map_filter_def comp_def)

subsection \<open>Context composition\<close>

text \<open>
  The repository's own test of a tag under a context: with \<open>a \<mapsto> ('[', ']')\<close> and
  context \<open>b \<mapsto> ('<', '>')\<close> the result is \<open>('><[', ']><')\<close>, which is not
  \<open>(ec + sa, ea + sc) = ('>[', ']<')\<close>.
\<close>

theorem C1_counterexample:
  "map_of [(''a'', (''['', '']'')), (''b'', (''<'', ''>''))] ''b'' = Some (''<'', ''>'') \<and>
   map_of [(''a'', (''['', '']'')), (''b'', (''<'', ''>''))] ''a'' = Some (''['', '']'') \<and>
   get_color_pair \<lparr>color_map = [(''a'', (''['', '']'')), (''b'', (''<'', ''>''))],
       default_color_tag = None\<rparr> (TagList [''a'']) (Some ''b'')
     \<noteq> (''>'' @ ''['', '']'' @ ''<'')"
  by (simp add: resolve_defs)

text \<open>
  C1, in the form that holds of the code: for every color map containing a non-empty context tag \<open>c\<close> with pair
  \<open>(sc, ec)\<close> and a tag \<open>a\<close> with pair \<open>(sa, ea)\<close>, resolving the single-tag list
  \<open>[a]\<close> with context tag \<open>c\<close> returns \<open>(ec + sc + sa, ea + ec + sc)\<close>: both the
  reversed and the normal context pair take part.
\<close>

theorem C1_context_composition:
  assumes "map_of (color_map self) c = Some (sc, ec)"
      and "map_of (color_map self) a = Some (sa, ea)"
      and "c \<noteq> []"
  shows "get_color_pair self (TagList [a]) (Some c) = (ec @ sc @ sa, ea @ ec @ sc)"
  using assms by (simp add: resolve_defs)

theorem C1_context_composition_witness:
  "map_of [(''a'', (''['', '']'')), (''b'', (''<'', ''>''))] ''b'' = Some (''<'', ''>'') \<and>
   map_of [(''a'', (''['', '']'')), (''b'', (''<'', ''>''))] ''a'' = Some (''['', '']'') \<and>
   ''b'' \<noteq> [] \<and>
   get_color_pair \<lparr>color_map = [(''a'', (''['', '']'')), (''b'', (''<'', ''>''))],
       default_color_tag = None\<rparr> (TagList [''a'']) (Some ''b'') = (''><['', '']><'')"
  using C1_context_composition [of "\<lparr>color_map = [(''a'', (''['', '']'')), (''b'', (''<'', ''>''))],
       default_color_tag = None\<rparr>" "''b''" "''<''" "''>''" "''a''" "''[''" "'']''"]
  by simp




subsection \<open>The printer, end to end\<close>

text \<open>
  C3: with the color map \<open>{a: ('[', ']'), b: ('(', ')'), c: ('<', '>')}\<close>, no default
  tag and no context tag, printing the template \<open>this {} a {value} !\<close> with the
  untagged positional argument \<open>is\<close> and a named value tagged \<open>[a, b, c]\<close> writes
  \<open>this is a [(<value>)] !\<close> and then a newline to a fresh stream, and nothing else.
\<close>

theorem C3_printer_end_to_end:
  "Printer_call (str_format ColorizedObject_str)
     (printer \<lparr>color_map = [(''a'', (''['', '']'')), (''b'', (''('', '')'')), (''c'', (''<'', ''>''))],
                default_color_tag = None\<rparr> None)
     ''this {} a {value} !''
     [plain ''is'']
     [(''value'', \<lparr>str_of = ''value'', color_tag = Some (TagList [''a'', ''b'', ''c''])\<rparr>)]
     []
   = (Inr (), [''this is a [(<value>)] !'', ''\<newline>'']) \<and>
   getvalue (snd (Printer_call (str_format ColorizedObject_str)
     (printer \<lparr>color_map = [(''a'', (''['', '']'')), (''b'', (''('', '')'')), (''c'', (''<'', ''>''))],
                default_color_tag = None\<rparr> None)
     ''this {} a {value} !''
     [plain ''is'']
     [(''value'', \<lparr>str_of = ''value'', color_tag = Some (TagList [''a'', ''b'', ''c''])\<rparr>)]
     []))
   = ''this is a [(<value>)] !\<newline>''"
  by (simp add: Printer_call_def Printer_msg_def Printer_cfunc_def printer_def str_format_def
      colorize_def plain_def resolve_defs ColorizedObject_str_def get_value_def list_get_def
      with_numbering_def prepend_def stream_write_def getvalue_def is_digit_def)

subsection \<open>Reverse-order closing\<close>

text \<open>
  C4: for every two tags \<open>t1 \<mapsto> (s1, e1)\<close> and \<open>t2 \<mapsto> (s2, e2)\<close> both present in
  the color map, resolving \<open>[t1, t2]\<close> with no context tag returns
  \<open>(s1 + s2, e2 + e1)\<close>. In general the start is the concatenation of the start
  strings of all kept pairs in list order and the stop is the concatenation of their
  stop strings in reverse list order; when some listed tag is found and there is no
  context, the kept pairs are those of the found tags, in the order of the list.
\<close>

theorem C4_reverse_order_closing:
  "(map_of (color_map self) t1 = Some (s1, e1) \<and> map_of (color_map self) t2 = Some (s2, e2) \<longrightarrow>
      get_color_pair self (TagList [t1, t2]) None = (s1 @ s2, e2 @ e1)) \<and>
   get_color_pair self tags ctx =
     (concat (map fst (pairs_of self tags ctx)), concat (rev (map snd (pairs_of self tags ctx)))) \<and>
   (filter (\<lambda>t. map_of (color_map self) t \<noteq> None) ts \<noteq> [] \<longrightarrow>
      get_color_pair self (TagList ts) None =
        (concat (map (\<lambda>t. fst (the (map_of (color_map self) t)))
                   (filter (\<lambda>t. map_of (color_map self) t \<noteq> None) ts)),
         concat (rev (map (\<lambda>t. snd (the (map_of (color_map self) t)))
                   (filter (\<lambda>t. map_of (color_map self) t \<noteq> None) ts)))))"
proof (intro conjI impI)
  assume "map_of (color_map self) t1 = Some (s1, e1) \<and> map_of (color_map self) t2 = Some (s2, e2)"
  then have "pairs_of self (TagList [t1, t2]) None = [(s1, e1), (s2, e2)]"
    by (simp add: pairs_of_two_found)
  then show "get_color_pair self (TagList [t1, t2]) None = (s1 @ s2, e2 @ e1)"
    by (simp add: get_color_pair_join)
next
  show "get_color_pair self tags ctx =
     (concat (map fst (pairs_of self tags ctx)), concat (rev (map snd (pairs_of self tags ctx))))"
    by (rule get_color_pair_join)
next
  assume "filter (\<lambda>t. map_of (color_map self) t \<noteq> None) ts \<noteq> []"
  then have "pairs_of self (TagList ts) None =
     map (\<lambda>t. the (map_of (color_map self) t)) (filter (\<lambda>t. map_of (color_map self) t \<noteq> None) ts)"
    by (rule pairs_of_some_found)
  then show "get_color_pair self (TagList ts) None =
        (concat (map (\<lambda>t. fst (the (map_of (color_map self) t)))
                   (filter (\<lambda>t. map_of (color_map self) t \<noteq> None) ts)),
         concat (rev (map (\<lambda>t. snd (the (map_of (color_map self) t)))
                   (filter (\<lambda>t. map_of (color_map self) t \<noteq> None) ts))))"
    by (simp add: get_color_pair_join comp_def)
qed

theorem C4_reverse_order_closing_witness:
  "map_of [(''a'', (''['', '']'')), (''b'', (''<'', ''>''))] ''a'' = Some (''['', '']'') \<and>
   map_of [(''a'', (''['', '']'')), (''b'', (''<'', ''>''))] ''b'' = Some (''<'', ''>'') \<and>
   filter (\<lambda>t. map_of [(''a'', (''['', '']'')), (''b'', (''<'', ''>''))] t \<noteq> None)
     [''a'', ''x'', ''b''] \<noteq> [] \<and>
   get_color_pair \<lparr>color_map = [(''a'', (''['', '']'')), (''b'', (''<'', ''>''))],
       default_color_tag = None\<rparr> (TagList [''a'', ''b'']) None = (''[<'', ''>]'') \<and>
   get_color_pair \<lparr>color_map = [(''a'', (''['', '']'')), (''b'', (''<'', ''>''))],
       default_color_tag = None\<rparr> (TagList [''a'', ''x'', ''b'']) None = (''[<'', ''>]'')"
  using C4_reverse_order_closing [of "\<lparr>color_map = [(''a'', (''['', '']'')), (''b'', (''<'', ''>''))],
       default_color_tag = None\<rparr>" "''a''" "''[''" "'']''" "''b''" "''<''" "''>''"
       "TagList []" None "[''a'', ''x'', ''b'']"]
  by simp

subsection \<open>A tag given as one string\<close>

text \<open>
  C5 says that a value whose \<^verbatim>\<open>color_tag\<close> is the single string \<open>t\<close>, a key
  of the color map with pair \<open>(s, e)\<close>, is colorized with \<open>(s, e)\<close>, like a value
  tagged with the list \<open>[t]\<close>. \<^verbatim>\<open>colorize\<close> hands the attribute to
  \<^verbatim>\<open>get_color_pair\<close> unchanged, which iterates over it: a string is looked up
  character by character. With the color map \<open>{info: ('<', '>')}\<close> the string tag
  \<open>info\<close> resolves to the empty pair, the list \<open>[info]\<close> to \<open>('<', '>')\<close>.
\<close>

theorem C5_string_tag_iterated_by_character:
  "map_of [(''info'', (''<'', ''>''))] ''info'' = Some (''<'', ''>'') \<and>
   color_pair (colorize \<lparr>color_map = [(''info'', (''<'', ''>''))], default_color_tag = None\<rparr>
      (ColorizableMixin ''x'' (Some (TagStr ''info''))) None) = Some ([], []) \<and>
   color_pair (colorize \<lparr>color_map = [(''info'', (''<'', ''>''))], default_color_tag = None\<rparr>
      (ColorizableMixin ''x'' (Some (TagList [''info'']))) None) = Some (''<'', ''>'')"
  by (simp add: colorize_def ColorizableMixin_def resolve_defs)

text \<open>The two agree when the string has exactly one character.\<close>

lemma colorize_one_character_tag:
  "color_pair (colorize self (ColorizableMixin s (Some (TagStr [ch]))) ctx) =
   color_pair (colorize self (ColorizableMixin s (Some (TagList [[ch]]))) ctx)"
  by (simp add: colorize_def ColorizableMixin_def resolve_defs)

subsection \<open>Writes to the stream\<close>

text \<open>
  A call of the printer passes the substituted text and the newline to
  \<^verbatim>\<open>write\<close> separately: printing \<open>hi\<close> to a fresh stream leaves two
  written strings, not the single string \<open>hi\<close> followed by a newline.
\<close>

theorem C6_counterexample:
  "snd (Printer_call (str_format ColorizedObject_str)
          (printer \<lparr>color_map = [(''a'', (''['', '']''))], default_color_tag = None\<rparr> None)
          ''hi'' [] [] []) = [''hi'', ''\<newline>''] \<and>
   length (snd (Printer_call (str_format ColorizedObject_str)
          (printer \<lparr>color_map = [(''a'', (''['', '']''))], default_color_tag = None\<rparr> None)
          ''hi'' [] [] [])) \<noteq> 1"
  by (simp add: Printer_call_def Printer_msg_def printer_def str_format_def prepend_def
      stream_write_def)

text \<open>
  C6, in the form that holds of the code: whatever the substitution function, a call of
  the printer whose substitution succeeds performs exactly two writes, first the
  substituted text and then the newline, so that the content of the stream grows by the
  text followed by the newline; a call whose substitution raises writes nothing.
\<close>

theorem C6_two_writes:
  "(\<exists>out. fmt (Printer_msg self msg) (map (Printer_cfunc self) args)
              (map (\<lambda>(key, v). (key, Printer_cfunc self v)) kwargs) = Inr out \<and>
           Printer_call fmt self msg args kwargs st = (Inr (), st @ [out, ''\<newline>'']) \<and>
           getvalue (snd (Printer_call fmt self msg args kwargs st))
             = getvalue st @ out @ ''\<newline>'') \<or>
   (\<exists>e. fmt (Printer_msg self msg) (map (Printer_cfunc self) args)
              (map (\<lambda>(key, v). (key, Printer_cfunc self v)) kwargs) = Inl e \<and>
        Printer_call fmt self msg args kwargs st = (Inl e, st))"
proof (cases "fmt (Printer_msg self msg) (map (Printer_cfunc self) args)
              (map (\<lambda>(key, v). (key, Printer_cfunc self v)) kwargs)")
  case (Inl e)
  then show ?thesis by (simp add: Printer_call_def)
next
  case (Inr out)
  then show ?thesis by (simp add: Printer_call_def stream_write_def getvalue_def)
qed

subsection \<open>Default tag\<close>

text \<open>
  C7: for every tag list whose members are all absent from the color map (the empty
  list included), if a default tag is configured and present in the color map with pair
  \<open>(sd, ed)\<close>, resolving with no context tag returns exactly \<open>(sd, ed)\<close>; if at least
  one listed tag is found, the default tag contributes nothing: the result is the one
  of the same colorizer without a default tag.
\<close>

theorem C7_default_fallback:
  "((\<forall>t \<in> set ts. map_of (color_map self) t = None) \<and>
    default_color_tag self = Some d \<and> map_of (color_map self) d = Some (sd, ed) \<longrightarrow>
      get_color_pair self (TagList ts) None = (sd, ed)) \<and>
   ((\<exists>t \<in> set ts. map_of (color_map self) t \<noteq> None) \<longrightarrow>
      get_color_pair self (TagList ts) ctx =
      get_color_pair (self\<lparr>default_color_tag := None\<rparr>) (TagList ts) ctx)"
proof (intro conjI impI)
  assume h: "(\<forall>t \<in> set ts. map_of (color_map self) t = None) \<and>
    default_color_tag self = Some d \<and> map_of (color_map self) d = Some (sd, ed)"
  then have "found_pairs self (TagList ts) = []"
    by (simp add: found_pairs_all_missing)
  with h show "get_color_pair self (TagList ts) None = (sd, ed)"
    by (simp add: get_color_pair_def pairs_of_def with_context_pair_def with_default_def)
next
  assume "\<exists>t \<in> set ts. map_of (color_map self) t \<noteq> None"
  then have "found_pairs self (TagList ts) \<noteq> []"
    by (rule found_pairs_some_found)
  then have "pairs_of self (TagList ts) ctx =
             pairs_of (self\<lparr>default_color_tag := None\<rparr>) (TagList ts) ctx"
    by (simp add: pairs_of_def with_default_def with_context_pair_def
        found_pairs_default_irrelevant)
  then show "get_color_pair self (TagList ts) ctx =
      get_color_pair (self\<lparr>default_color_tag := None\<rparr>) (TagList ts) ctx"
    by (simp add: get_color_pair_def)
qed

theorem C7_default_fallback_witness:
  "map_of [(''a'', (''['', '']'')), (''b'', (''<'', ''>''))] ''c'' = None \<and>
   map_of [(''a'', (''['', '']'')), (''b'', (''<'', ''>''))] ''b'' = Some (''<'', ''>'') \<and>
   get_color_pair \<lparr>color_map = [(''a'', (''['', '']'')), (''b'', (''<'', ''>''))],
       default_color_tag = Some ''b''\<rparr> (TagList [''c'']) None = (''<'', ''>'') \<and>
   map_of [(''a'', (''['', '']'')), (''b'', (''<'', ''>''))] ''a'' = Some (''['', '']'') \<and>
   get_color_pair \<lparr>color_map = [(''a'', (''['', '']'')), (''b'', (''<'', ''>''))],
       default_color_tag = Some ''b''\<rparr> (TagList [''c'', ''a'']) None =
   get_color_pair \<lparr>color_map = [(''a'', (''['', '']'')), (''b'', (''<'', ''>''))],
       default_color_tag = None\<rparr> (TagList [''c'', ''a'']) None"
  using C7_default_fallback [of "[''c'']" "\<lparr>color_map = [(''a'', (''['', '']'')), (''b'', (''<'', ''>''))],
       default_color_tag = Some ''b''\<rparr>" "''b''" "''<''" "''>''" None]
    C7_default_fallback [of "[''c'', ''a'']" "\<lparr>color_map = [(''a'', (''['', '']'')), (''b'', (''<'', ''>''))],
       default_color_tag = Some ''b''\<rparr>" "''b''" "''<''" "''>''" None]
  by simp

subsection \<open>Failed lookups\<close>

text \<open>
  C8: \<^verbatim>\<open>get_color_pair\<close> has a result for every color map, tag list, default
  tag and context tag: the method has no \<^verbatim>\<open>raise\<close> and uses only
  \<^verbatim>\<open>dict.get\<close>, \<^verbatim>\<open>filter\<close>, the reversal of a 2-tuple and
  \<^verbatim>\<open>str.join\<close>, so its embedding is a function without an error branch. Every
  failed lookup is skipped and contributes no pair: the listed tags that are not found
  can be removed from the list, a default tag that is not found can be removed from the
  colorizer, a context tag that is not found can be left out, each without changing the
  result. When every lookup fails the result is the pair of empty strings, in
  particular for the empty list with no default and no context.
\<close>

theorem C8_lookup_misses_are_skipped:
  "get_color_pair self (TagList ts) ctx =
     get_color_pair self (TagList (filter (\<lambda>t. map_of (color_map self) t \<noteq> None) ts)) ctx \<and>
   (dict_get (color_map self) (default_color_tag self) = None \<longrightarrow>
      get_color_pair self tags ctx = get_color_pair (self\<lparr>default_color_tag := None\<rparr>) tags ctx) \<and>
   (map_of (color_map self) c = None \<longrightarrow>
      get_color_pair self tags (Some c) = get_color_pair self tags None) \<and>
   ((\<forall>t \<in> set ts. map_of (color_map self) t = None) \<and>
    dict_get (color_map self) (default_color_tag self) = None \<and>
    dict_get (color_map self) ctx = None \<longrightarrow>
      get_color_pair self (TagList ts) ctx = ([], [])) \<and>
   get_color_pair (self\<lparr>default_color_tag := None\<rparr>) (TagList []) None = ([], [])"
proof (intro conjI impI)
  show "get_color_pair self (TagList ts) ctx =
     get_color_pair self (TagList (filter (\<lambda>t. map_of (color_map self) t \<noteq> None) ts)) ctx"
    by (simp only: get_color_pair_def pairs_of_def found_pairs_drop_missing)
next
  assume "dict_get (color_map self) (default_color_tag self) = None"
  then show "get_color_pair self tags ctx =
      get_color_pair (self\<lparr>default_color_tag := None\<rparr>) tags ctx"
    by (simp add: get_color_pair_def pairs_of_def with_default_missing with_default_none
        with_context_pair_default_irrelevant found_pairs_default_irrelevant)
next
  assume "map_of (color_map self) c = None"
  then show "get_color_pair self tags (Some c) = get_color_pair self tags None"
    by (simp add: get_color_pair_def pairs_of_def with_context_pair_def)
next
  assume h: "(\<forall>t \<in> set ts. map_of (color_map self) t = None) \<and>
    dict_get (color_map self) (default_color_tag self) = None \<and>
    dict_get (color_map self) ctx = None"
  then have "found_pairs self (TagList ts) = []"
    by (simp add: found_pairs_all_missing)
  with h have "pairs_of self (TagList ts) ctx = []"
    by (simp add: pairs_of_def with_default_missing with_context_pair_missing)
  then show "get_color_pair self (TagList ts) ctx = ([], [])"
    by (simp add: get_color_pair_def)
next
  show "get_color_pair (self\<lparr>default_color_tag := None\<rparr>) (TagList []) None = ([], [])"
    by (simp add: resolve_defs)
qed

theorem C8_lookup_misses_are_skipped_witness:
  "dict_get [(''a'', (''['', '']''))] (Some ''d'') = None \<and>
   map_of [(''a'', (''['', '']''))] ''c'' = None \<and>
   map_of [(''a'', (''['', '']''))] ''x'' = None \<and>
   get_color_pair \<lparr>color_map = [(''a'', (''['', '']''))], default_color_tag = Some ''d''\<rparr>
     (TagList [''x'']) (Some ''c'') = ([], []) \<and>
   get_color_pair \<lparr>color_map = [(''a'', (''['', '']''))], default_color_tag = Some ''d''\<rparr>
     (TagList [''x'', ''a'']) (Some ''c'') = (''['', '']'')"
  using C8_lookup_misses_are_skipped [of "\<lparr>color_map = [(''a'', (''['', '']''))],
      default_color_tag = Some ''d''\<rparr>" "[''x'']" "Some ''c''" "TagList [''x'', ''a'']" "''c''"]
  by (simp add: resolve_defs)

subsection \<open>Equality of wrappers\<close>


subsection \<open>An empty color map\<close>

text \<open>
  C10: constructing a colorizer with an empty color map, or any other falsy one, gives
  the colorizer constructed with no color map at all, which has the built-in color map
  of its class: both resolve every tag in the same way, and a \<^verbatim>\<open>Colorizer\<close>
  built from the empty map still resolves \<open>error\<close> to its red sequence.
\<close>

theorem C10_empty_color_map_replaced:
  "GenericColorizer_init K cls (Some []) d = GenericColorizer_init K cls None d \<and>
   (\<not> truthy_map cmap \<longrightarrow>
      GenericColorizer_init K cls cmap d = GenericColorizer_init K cls None d) \<and>
   (default_color_map K cls = Some m \<longrightarrow>
      GenericColorizer_init K cls (Some []) d = Inr \<lparr>color_map = m, default_color_tag = d\<rparr>) \<and>
   map_sum id (\<lambda>cz. get_color_pair cz tags ctx) (GenericColorizer_init K cls (Some []) d) =
   map_sum id (\<lambda>cz. get_color_pair cz tags ctx) (GenericColorizer_init K cls None d) \<and>
   map_sum id (\<lambda>cz. get_color_pair cz (TagList [''error'']) None)
     (GenericColorizer_init K Colorizer_class (Some []) None) = Inr (Fore_RED K, Style_RESET_ALL K)"
  by (simp add: GenericColorizer_init_def resolve_defs)

theorem C10_empty_color_map_replaced_witness:
  "default_color_map colorama_ansi MonochromaticColorizer_class
     = Some [(''important'', (''**'', ''**''))] \<and>
   GenericColorizer_init colorama_ansi MonochromaticColorizer_class (Some []) None
     = Inr \<lparr>color_map = [(''important'', (''**'', ''**''))], default_color_tag = None\<rparr> \<and>
   GenericColorizer_init colorama_ansi MonochromaticColorizer_class None None
     = Inr \<lparr>color_map = [(''important'', (''**'', ''**''))], default_color_tag = None\<rparr>"
  using C10_empty_color_map_replaced [of colorama_ansi MonochromaticColorizer_class None
      "Some []" "[(''important'', (''**'', ''**''))]" "TagList []" None]
  by (simp add: GenericColorizer_init_def)

end
